theory Spec2Isabelle
  imports Complex_Main "HOL-Library.Word" "HOL-Library.Monad_Syntax"
begin

section \<open>Axion-photon conversion probabilities of TRestAxionField\<close>

text \<open>
  The theory embeds the probability engines and the scan-step generator of
  \<^verbatim>\<open>src/src/TRestAxionField.cxx\<close>.

  Numbers. A \<^verbatim>\<open>Double_t\<close> is modelled as a real number, so rounding and overflow are
  not part of the model. What IEEE arithmetic does at a division by zero is kept: the
  quotient is an infinity or a NaN there, and in every function below such a value
  reaches the returned product as a NaN (\<open>cos\<close> of an infinity is a NaN, and an
  infinite \<open>MFactor\<close> meets a factor that is exactly zero). A value that may be a NaN
  has type \<open>real option\<close>, \<open>None\<close> being the NaN; a comparison with a NaN is false.
  Only the quotients whose divisor is a run-time value are guarded; the divisors that
  are constants of the framework (unit factors, \<open>naturalElectron\<close>) are divided by
  directly.

  The model speaks for the code where rounding decides nothing: the control flow, the
  early returns, expressions that are symmetric in their arguments, and loops whose
  steps stay far above the spacing of the doubles. The value of the closed form is not
  of that kind (the code's \<open>1 + exp (- GammaL) - 2 * exp (- GammaL / 2) * cos phi\<close>
  cancels at a small phase), and neither is the return of the scan at a negative
  ramp-down, where the factor grows like \<open>exp (\<bar>rampDown\<bar> * ma)\<close> and a double
  \<open>ma\<close> stops advancing: the return of the scan is stated for \<open>rampDown \<ge> 0\<close> only.
\<close>

subsection \<open>What the framework and the collaborators provide\<close>

text \<open>
  \<^verbatim>\<open>units("...")\<close>, the constants of \<^verbatim>\<open>REST_Physics\<close> and the default argument of
  \<^verbatim>\<open>GammaTransmissionFWHM\<close> are declared outside the files at hand: they are the
  fields of a parameter record.
\<close>

record physics =
  units :: "string \<Rightarrow> real"
  lightSpeed :: real
  naturalElectron :: real
  PhMeterIneV :: real
  fwhmDefaultStep :: real

text \<open>
  \<^verbatim>\<open>TRestAxionBufferGas\<close> is a collaborator: its methods are the fields of a record
  over the type \<open>'g\<close> of gas objects. \<open>newGas\<close> is the default-constructed object,
  \<open>densityDefaultEnergy\<close> the default energy argument of \<^verbatim>\<open>GetDensityForMass\<close>.
\<close>

record 'g gasmodel =
  newGas :: 'g
  SetGasDensity :: "string \<Rightarrow> real \<Rightarrow> 'g \<Rightarrow> 'g"
  GetPhotonMass :: "'g \<Rightarrow> real \<Rightarrow> real"
  GetPhotonAbsorptionLength :: "'g \<Rightarrow> real \<Rightarrow> real"
  GetDensityForMass :: "'g \<Rightarrow> real \<Rightarrow> real \<Rightarrow> real"
  densityDefaultEnergy :: real

text \<open>\<^verbatim>\<open>TRestAxionMagneticField\<close>, as far as the engines read it.\<close>

record fieldmap =
  GetTrackLength :: real
  GetTransversalComponentInParametricTrack :: "real \<Rightarrow> real"

subsection \<open>The engine's state\<close>

record 'g engine =
  fBmag :: real
  fLcoh :: real
  fEa :: real
  fBufferGas :: "'g option"
  fMagneticField :: "fieldmap option"

text \<open>The messages sent to \<^verbatim>\<open>RESTError\<close>, one constructor for each statement.\<close>

datatype report =
  RequiresFieldMap | UseAssignMagneticField | FWHMWentWrong | FWHMProblem

datatype fault = OutOfRange | NullPointer

subsection \<open>Doubles that may be a NaN\<close>

definition ddiv :: "real \<Rightarrow> real \<Rightarrow> real option" where
  "ddiv x y = (if y = 0 then None else Some (x / y))"

definition dless :: "real option \<Rightarrow> real option \<Rightarrow> bool" where
  "dless a b = (case a of None \<Rightarrow> False
                | Some x \<Rightarrow> (case b of None \<Rightarrow> False | Some y \<Rightarrow> x < y))"

subsection \<open>The (BL) factors\<close>

definition BL :: "physics \<Rightarrow> real \<Rightarrow> real \<Rightarrow> real" where
  "BL K Bmag Lcoh =
    (let lengthInMeters = Lcoh * units K ''m'';
         tm = lightSpeed K / naturalElectron K * units K ''GeV'' / units K ''eV'';
         sol = lengthInMeters * Bmag * tm
     in sol * (1 / 10 ^ 10))"

definition BLHalfSquared :: "physics \<Rightarrow> real \<Rightarrow> real \<Rightarrow> real" where
  "BLHalfSquared K Bmag Lcoh =
    (let lengthInMeters = Lcoh * units K ''m'';
         tm = lightSpeed K / naturalElectron K * units K ''GeV'' / units K ''eV'';
         sol = lengthInMeters * Bmag * tm / 2
     in sol * sol * (1 / 10 ^ 20))"

subsection \<open>The closed-form engine\<close>

text \<open>
  \<^verbatim>\<open>GammaTransmissionProbability(ma, mg, absLength)\<close>. The debug output is left out.
\<close>

definition GammaTransmissionProbability ::
  "physics \<Rightarrow> 'g gasmodel \<Rightarrow> 'g engine \<Rightarrow> real \<Rightarrow> real \<Rightarrow> real \<Rightarrow> real option" where
  "GammaTransmissionProbability K G s ma mg absLength =
    (let cohLength = fLcoh s * units K ''m'';
         photonMass = (case fBufferGas s of
                         Some gas \<Rightarrow> if mg = 0 then GetPhotonMass G gas (fEa s) else mg
                       | None \<Rightarrow> mg)
     in if ma = 0 \<and> photonMass = 0 then Some (BLHalfSquared K (fBmag s) (fLcoh s))
        else do {
          q \<leftarrow> ddiv ((ma * ma - photonMass * photonMass) / 2) (fEa s * units K ''eV'');
          let l = cohLength * PhMeterIneV K;
          let phi = q * l;
          let Gamma = (case fBufferGas s of
                         Some gas \<Rightarrow> if absLength = 0
                                     then GetPhotonAbsorptionLength G gas (fEa s) else absLength
                       | None \<Rightarrow> absLength);
          let GammaL = Gamma * cohLength * units K ''cm'' / units K ''m'';
          MFactor \<leftarrow> ddiv 1 (phi * phi + GammaL * GammaL / 4);
          Some (MFactor * BLHalfSquared K (fBmag s) (fLcoh s) *
                (1 + exp (- GammaL) - 2 * exp (- GammaL / 2) * cos phi))
        })"

text \<open>The overload that first stores the field, the length and the energy.\<close>

definition GammaTransmissionProbability_full ::
  "physics \<Rightarrow> 'g gasmodel \<Rightarrow> 'g engine \<Rightarrow> real \<Rightarrow> real \<Rightarrow> real \<Rightarrow> real \<Rightarrow> real \<Rightarrow> real
     \<Rightarrow> real option \<times> 'g engine" where
  "GammaTransmissionProbability_full K G s Bmag Lcoh Ea ma mg absLength =
    (let s' = s\<lparr>fBmag := Bmag, fLcoh := Lcoh, fEa := Ea\<rparr>
     in (GammaTransmissionProbability K G s' ma mg absLength, s'))"

subsection \<open>The discrete-profile engine\<close>

text \<open>
  The midpoint loop of the overload that takes a field profile:
  \<^verbatim>\<open>for (unsigned int n = 0; n < Bmag.size() - 1; n++)\<close>. The counter is a 32-bit
  word, the bound \<^verbatim>\<open>Bmag.size() - 1\<close> a 64-bit word (\<^verbatim>\<open>size_t\<close>), so the bound of an
  empty profile wraps around to \<open>2 ^ 64 - 1\<close>. Reading \<^verbatim>\<open>Bmag[n]\<close> or
  \<^verbatim>\<open>Bmag[n + 1]\<close> beyond the end of the vector is the fault \<open>OutOfRange\<close>. The
  loop may run forever (a profile longer than the counter's range), so it is a partial
  function: \<open>None\<close> is not returning. The sum is a NaN as soon as one term is.
\<close>

partial_function (option) midpoint_loop ::
  "physics \<Rightarrow> real list \<Rightarrow> real \<Rightarrow> real \<Rightarrow> real option \<Rightarrow> 32 word \<Rightarrow> complex option
     \<Rightarrow> (fault + complex option) option" where
  "midpoint_loop K Bmag deltaL Gamma q n csum =
    (if (ucast n :: 64 word) < (of_nat (length Bmag) :: 64 word) - 1 then
       (if unat n < length Bmag \<and> unat (n + 1) < length Bmag then
          (let Bmiddle = 0.5 * (Bmag ! unat n + Bmag ! unat (n + 1));
               deltaIneV = deltaL * units K ''m'' * PhMeterIneV K;
               lStepIneV = (real (unat n) + 0.5) * deltaIneV;
               lStepInCm = (real (unat n) + 0.5) * deltaL * units K ''cm'';
               qCgC = map_option
                        (\<lambda>q. exp (Complex (0.5 * Gamma * lStepInCm) (- q * lStepIneV))) q;
               integrand = map_option (\<lambda>z. of_real (Bmiddle * deltaL) * z) qCgC
           in midpoint_loop K Bmag deltaL Gamma q (n + 1)
                (do { a \<leftarrow> csum; b \<leftarrow> integrand; Some (a + b) }))
        else Some (Inl OutOfRange))
     else Some (Inr csum))"

text \<open>
  \<^verbatim>\<open>GammaTransmissionProbability(Bmag, deltaL, Ea, ma, mg, absLength)\<close>. \<open>l\<close>,
  \<open>phi\<close> and \<open>MFactor\<close> feed the debug output only and are left out.
\<close>

definition GammaTransmissionProbability_profile ::
  "physics \<Rightarrow> 'g gasmodel \<Rightarrow> 'g engine \<Rightarrow> real list \<Rightarrow> real \<Rightarrow> real \<Rightarrow> real \<Rightarrow> real \<Rightarrow> real
     \<Rightarrow> (fault + real option) option" where
  "GammaTransmissionProbability_profile K G s Bmag deltaL Ea ma mg absLength =
    (let Lcoh = real (unat ((of_nat (length Bmag) :: 64 word) - 1)) * deltaL;
         cohLength = Lcoh * units K ''m'';
         photonMass = (case fBufferGas s of
                         Some gas \<Rightarrow> if mg = 0 then GetPhotonMass G gas Ea else mg
                       | None \<Rightarrow> mg);
         fieldAverage = (if length Bmag > 0
                         then foldl (+) 0 Bmag / real (length Bmag) else 0)
     in if ma = 0 \<and> photonMass = 0 then Some (Inr (Some (BLHalfSquared K fieldAverage Lcoh)))
        else
          (let q = ddiv ((ma * ma - photonMass * photonMass) / 2) (Ea * units K ''eV'');
               Gamma = (case fBufferGas s of
                          Some gas \<Rightarrow> if absLength = 0
                                      then GetPhotonAbsorptionLength G gas Ea else absLength
                        | None \<Rightarrow> absLength);
               GammaL = Gamma * cohLength * units K ''cm'' / units K ''m''
           in do {
             r \<leftarrow> midpoint_loop K Bmag deltaL Gamma q 0 (Some 0);
             Some (case r of
                     Inl e \<Rightarrow> Inl e
                   | Inr csum \<Rightarrow>
                       Inr (map_option
                              (\<lambda>z. exp (- GammaL) * (Re z * Re z + Im z * Im z) *
                                   BLHalfSquared K 1 1) csum))
           }))"

subsection \<open>The field-map engine\<close>

text \<open>
  The quadrature routines of the GSL are collaborators. Each returns its status, its
  result and its error estimate. \<open>gsl_integration_qag f a b epsabs epsrel limit\<close>
  integrates \<open>f\<close> over \<open>[a, b]\<close>; \<open>gsl_integration_qawo f a epsabs epsrel limit wf\<close>
  integrates \<open>f\<close> against the oscillating weight of the table \<open>wf\<close>. The workspace
  and the timing of the source are left out.
\<close>

datatype qawo_weight = GSL_INTEG_COSINE | GSL_INTEG_SINE

record qawo_table =
  omega :: "real option"
  tableL :: real
  weight :: qawo_weight
  levels :: int

record quadrature =
  gsl_integration_qag ::
    "(real \<Rightarrow> real) \<Rightarrow> real \<Rightarrow> real \<Rightarrow> real \<Rightarrow> real \<Rightarrow> int \<Rightarrow> int \<times> real \<times> real"
  gsl_integration_qawo ::
    "(real \<Rightarrow> real) \<Rightarrow> real \<Rightarrow> real \<Rightarrow> real \<Rightarrow> int \<Rightarrow> qawo_table \<Rightarrow> int \<times> real \<times> real"

text \<open>
  Modelled from the spec: \<^verbatim>\<open>Integrand\<close> is defined in the header
  \<^verbatim>\<open>TRestAxionField.h\<close>, which is not at hand. The spec gives it as the field-map
  magnitude at the parametric position, attenuated by \<open>exp (0.5 * Gamma * position)\<close>.
\<close>

definition Integrand :: "fieldmap \<Rightarrow> real \<Rightarrow> real \<Rightarrow> real" where
  "Integrand fm Gamma x = GetTransversalComponentInParametricTrack fm x * exp (0.5 * Gamma * x)"

text \<open>
  Both integrals read the track length through the pointer \<^verbatim>\<open>fMagneticField\<close>; a null
  pointer there is the fault \<open>NullPointer\<close>.
\<close>

definition ComputeResonanceIntegral ::
  "physics \<Rightarrow> quadrature \<Rightarrow> 'g engine \<Rightarrow> real \<Rightarrow> real \<Rightarrow> int \<Rightarrow> fault + real \<times> real" where
  "ComputeResonanceIntegral K Q s Gamma accuracy num_intervals =
    (case fMagneticField s of
       None \<Rightarrow> Inl NullPointer
     | Some fm \<Rightarrow>
        (case gsl_integration_qag Q (Integrand fm Gamma) 0 (GetTrackLength fm)
                accuracy accuracy num_intervals of
           (status, reprob, rerr) \<Rightarrow>
             if status > 0 then Inr (0, real_of_int status)
             else
               (let GammaL = Gamma * GetTrackLength fm;
                    C = exp (- GammaL) * BLHalfSquared K 1 1;
                    prob = C * reprob * reprob;
                    proberr = 2 * C * reprob * rerr
                in Inr (prob, proberr))))"

definition ComputeOffResonanceIntegral ::
  "physics \<Rightarrow> quadrature \<Rightarrow> 'g engine \<Rightarrow> real option \<Rightarrow> real \<Rightarrow> real \<Rightarrow> int \<Rightarrow> int
     \<Rightarrow> fault + real \<times> real" where
  "ComputeOffResonanceIntegral K Q s q Gamma accuracy num_intervals qawo_levels =
    (case fMagneticField s of
       None \<Rightarrow> Inl NullPointer
     | Some fm \<Rightarrow>
        (let wf = \<lparr>omega = q, tableL = GetTrackLength fm, weight = GSL_INTEG_COSINE,
                   levels = qawo_levels\<rparr>
         in case gsl_integration_qawo Q (Integrand fm Gamma) 0 accuracy accuracy
                   num_intervals wf of
              (status, reprob, rerr) \<Rightarrow>
                if status > 0 then Inr (0, real_of_int status)
                else
                  (let wf' = wf\<lparr>omega := q, tableL := GetTrackLength fm,
                                 weight := GSL_INTEG_SINE\<rparr>
                   in case gsl_integration_qawo Q (Integrand fm Gamma) 0 accuracy accuracy
                             num_intervals wf' of
                        (status', improb, imerr) \<Rightarrow>
                          if status' > 0 then Inr (0, real_of_int status')
                          else
                            (let GammaL = Gamma * GetTrackLength fm;
                                 C = exp (- GammaL) * BLHalfSquared K 1 1;
                                 prob = C * (reprob * reprob + improb * improb);
                                 proberr = 2 * C * sqrt (reprob * reprob * rerr * rerr +
                                                         improb * improb * imerr * imerr)
                             in Inr (prob, proberr)))))"

text \<open>
  \<^verbatim>\<open>GammaTransmissionFieldMapProbability\<close>, with the messages it sends to
  \<^verbatim>\<open>RESTError\<close>. A \<open>q\<close> that is not finite is not equal to zero.
\<close>

definition GammaTransmissionFieldMapProbability ::
  "physics \<Rightarrow> 'g gasmodel \<Rightarrow> quadrature \<Rightarrow> 'g engine \<Rightarrow> real \<Rightarrow> real \<Rightarrow> real \<Rightarrow> int \<Rightarrow> int
     \<Rightarrow> (fault + real \<times> real) \<times> report list" where
  "GammaTransmissionFieldMapProbability K G Q s Ea ma accuracy num_intervals qawo_levels =
    (case fMagneticField s of
       None \<Rightarrow> (Inr (0, 0), [RequiresFieldMap, UseAssignMagneticField])
     | Some fm \<Rightarrow>
        if GetTrackLength fm \<le> 0 then (Inr (0, 0), [])
        else
          (let photonMass = (case fBufferGas s of
                               Some gas \<Rightarrow> GetPhotonMass G gas Ea | None \<Rightarrow> 0);
               q = ddiv ((ma * ma - photonMass * photonMass) / 2) (Ea * units K ''eV'');
               q = map_option (\<lambda>q. q * PhMeterIneV K * units K ''m'' / units K ''mm'') q;
               Gamma = (case fBufferGas s of
                          Some gas \<Rightarrow> GetPhotonAbsorptionLength G gas Ea * units K ''cm'' /
                                      units K ''mm''
                        | None \<Rightarrow> 0)
           in if q = Some 0
              then (ComputeResonanceIntegral K Q s Gamma accuracy num_intervals, [])
              else (ComputeOffResonanceIntegral K Q s q Gamma accuracy num_intervals
                      qawo_levels, [])))"

subsection \<open>The scan-step generator\<close>

text \<open>
  The walk of \<^verbatim>\<open>GammaTransmissionFWHM\<close>:
  \<^verbatim>\<open>while (Pmax / 2 < GammaTransmissionProbability(scanMass))\<close>. It ends either at a
  mass where the test fails or by the early return at \<open>scanMass > maxMass\<close>. With a
  step that is not positive it may run forever, so it is a partial function.
\<close>

datatype walk = Crossed real | Exceeded

partial_function (option) fwhm_walk ::
  "physics \<Rightarrow> 'g gasmodel \<Rightarrow> 'g engine \<Rightarrow> real \<Rightarrow> real \<Rightarrow> real option \<Rightarrow> real \<Rightarrow> walk option"
  where
  "fwhm_walk K G s step maxMass Pmax scanMass =
    (if dless (map_option (\<lambda>p. p / 2) Pmax) (GammaTransmissionProbability K G s scanMass 0 0)
     then (let scanMass' = scanMass + step
           in if scanMass' > maxMass then Some Exceeded
              else fwhm_walk K G s step maxMass Pmax scanMass')
     else Some (Crossed scanMass))"

text \<open>
  \<^verbatim>\<open>GammaTransmissionFWHM(step)\<close>, with the messages it sends to \<^verbatim>\<open>RESTError\<close>.
  \<open>resonanceMass\<close> is its local variable of that name: the photon mass of the bound
  gas, zero in vacuum.
\<close>

definition resonanceMass :: "'g gasmodel \<Rightarrow> 'g engine \<Rightarrow> real" where
  "resonanceMass G s =
    (case fBufferGas s of Some gas \<Rightarrow> GetPhotonMass G gas (fEa s) | None \<Rightarrow> 0)"

definition GammaTransmissionFWHM ::
  "physics \<Rightarrow> 'g gasmodel \<Rightarrow> 'g engine \<Rightarrow> real \<Rightarrow> (real \<times> report list) option" where
  "GammaTransmissionFWHM K G s step =
    (let maxMass = 10;
         Pmax = GammaTransmissionProbability K G s (resonanceMass G s) 0 0
     in do {
       w \<leftarrow> fwhm_walk K G s step maxMass Pmax (resonanceMass G s);
       (case w of
          Exceeded \<Rightarrow> Some (maxMass, [FWHMWentWrong])
        | Crossed scanMass \<Rightarrow>
            (let fwhm = scanMass - resonanceMass G s
             in if fwhm \<le> 0 then Some (2 * step, [FWHMProblem])
                else Some (2 * fwhm, [])))
     })"

text \<open>
  Modelled from the spec: \<^verbatim>\<open>AssignBufferGas\<close> is defined in the header
  \<^verbatim>\<open>TRestAxionField.h\<close>, which is not at hand. The spec has it attach its argument
  as the gas binding of the engine, the null pointer being vacuum.
\<close>

definition AssignBufferGas :: "'g option \<Rightarrow> 'g engine \<Rightarrow> 'g engine" where
  "AssignBufferGas buffGas s = s\<lparr>fBufferGas := buffGas\<rparr>"

text \<open>
  The loop of \<^verbatim>\<open>GetMassDensityScanning\<close>. \<^verbatim>\<open>fBufferGas\<close> points to the local
  object \<^verbatim>\<open>gas\<close> there, so the engine sees every \<^verbatim>\<open>SetGasDensity\<close>: the binding is
  written again with the new gas value.
\<close>

partial_function (option) scan_loop ::
  "physics \<Rightarrow> 'g gasmodel \<Rightarrow> string \<Rightarrow> real \<Rightarrow> real \<Rightarrow> 'g engine \<Rightarrow> 'g \<Rightarrow> real \<Rightarrow> real
     \<Rightarrow> (real \<times> real) list \<Rightarrow> report list
     \<Rightarrow> ((real \<times> real) list \<times> 'g engine \<times> report list) option" where
  "scan_loop K G gasName maMax rampDown s gas ma density massDensityPairs reports =
    (if ma < maMax then
       (let factor = exp (- ma * rampDown) + 1;
            gas' = SetGasDensity G gasName density gas;
            s' = s\<lparr>fBufferGas := Some gas'\<rparr>
        in do {
          r \<leftarrow> GammaTransmissionFWHM K G s' (fwhmDefaultStep K);
          let ma' = ma + fst r / factor;
          let density' = GetDensityForMass G gas' ma' (densityDefaultEnergy G);
          scan_loop K G gasName maMax rampDown s' gas' ma' density'
            (massDensityPairs @ [(ma', density')]) (reports @ snd r)
        })
     else Some (massDensityPairs, s, reports))"

definition GetMassDensityScanning ::
  "physics \<Rightarrow> 'g gasmodel \<Rightarrow> 'g engine \<Rightarrow> string \<Rightarrow> real \<Rightarrow> real
     \<Rightarrow> ((real \<times> real) list \<times> 'g engine \<times> report list) option" where
  "GetMassDensityScanning K G s gasName maMax rampDown =
    (let previousGas = (case fBufferGas s of Some gas \<Rightarrow> Some gas | None \<Rightarrow> None);
         s1 = (case fBufferGas s of Some gas \<Rightarrow> s\<lparr>fBufferGas := None\<rparr> | None \<Rightarrow> s)
     in do {
       r \<leftarrow> GammaTransmissionFWHM K G s1 (fwhmDefaultStep K);
       let firstMass = fst r / 2;
       let gas = SetGasDensity G gasName 0 (newGas G);
       let s2 = AssignBufferGas (Some gas) s1;
       let ma = firstMass;
       let density = GetDensityForMass G gas firstMass (fEa s2);
       out \<leftarrow> scan_loop K G gasName maMax rampDown s2 gas ma density [(ma, density)] (snd r);
       (case out of
          (massDensityPairs, s3, reports) \<Rightarrow>
            Some (massDensityPairs, s3\<lparr>fBufferGas := previousGas\<rparr>, reports))
     })"

subsection \<open>The closed form in the words of the specification\<close>

text \<open>
  The specification resolves the photon mass as \<open>mg\<close> if nonzero, else the bound gas
  at the current energy, else zero; the attenuation coefficient likewise from
  \<open>absLength\<close>. Its phase is \<open>phi = q * l\<close> with \<open>q = (ma\<^sup>2 - mg\<^sup>2) / (2 * Ea)\<close>,
  \<open>Ea\<close> in eV, and \<open>l\<close> the coherence length in inverse eV; \<open>GammaL\<close> is the
  coefficient times the coherence length in cm.
\<close>

definition spec_photonMass :: "'g gasmodel \<Rightarrow> 'g engine \<Rightarrow> real \<Rightarrow> real" where
  "spec_photonMass G s mg =
    (if mg \<noteq> 0 then mg
     else (case fBufferGas s of Some gas \<Rightarrow> GetPhotonMass G gas (fEa s) | None \<Rightarrow> 0))"

definition spec_Gamma :: "'g gasmodel \<Rightarrow> 'g engine \<Rightarrow> real \<Rightarrow> real" where
  "spec_Gamma G s absLength =
    (if absLength \<noteq> 0 then absLength
     else (case fBufferGas s of
             Some gas \<Rightarrow> GetPhotonAbsorptionLength G gas (fEa s) | None \<Rightarrow> 0))"

definition spec_phi :: "physics \<Rightarrow> 'g gasmodel \<Rightarrow> 'g engine \<Rightarrow> real \<Rightarrow> real \<Rightarrow> real" where
  "spec_phi K G s ma mg =
    (ma\<^sup>2 - (spec_photonMass G s mg)\<^sup>2) / (2 * (fEa s * units K ''eV'')) *
    (fLcoh s * units K ''m'' * PhMeterIneV K)"

definition spec_GammaL :: "physics \<Rightarrow> 'g gasmodel \<Rightarrow> 'g engine \<Rightarrow> real \<Rightarrow> real" where
  "spec_GammaL K G s absLength =
    spec_Gamma G s absLength * (fLcoh s * units K ''m'' * units K ''cm'' / units K ''m'')"

subsection \<open>Sample instances\<close>

text \<open>
  A set of constants, a gas whose state is its density, and an engine in vacuum with a
  field of 2 T, a length of 10000 mm and an energy of 4.2 keV: the inputs at which the
  theorems below are instantiated.
\<close>

definition sample_physics :: physics where
  "sample_physics =
    \<lparr>units = (\<lambda>u. if u = ''m'' then 1 / 1000 else if u = ''cm'' then 1 / 10
                 else if u = ''eV'' then 1000 else if u = ''GeV'' then 1 / 1000000 else 1),
     lightSpeed = 299792458, naturalElectron = 302822120214353 / 10 ^ 15,
     PhMeterIneV = 5067731, fwhmDefaultStep = 1 / 1000\<rparr>"

definition sample_gas :: "real gasmodel" where
  "sample_gas =
    \<lparr>newGas = 0, SetGasDensity = (\<lambda>gasName density gas. density),
     GetPhotonMass = (\<lambda>gas en. gas), GetPhotonAbsorptionLength = (\<lambda>gas en. gas / 2),
     GetDensityForMass = (\<lambda>gas m en. m), densityDefaultEnergy = 42 / 10\<rparr>"

definition sample_engine :: "real engine" where
  "sample_engine =
    \<lparr>fBmag = 2, fLcoh = 10000, fEa = 42 / 10, fBufferGas = None, fMagneticField = None\<rparr>"

subsection \<open>Notions used in the statements\<close>

text \<open>
  The call of QAG that \<open>ComputeResonanceIntegral\<close> makes, and the call of QAWO that
  \<open>ComputeOffResonanceIntegral\<close> makes with the weight \<open>w\<close>.
\<close>

definition qag_call :: "quadrature \<Rightarrow> fieldmap \<Rightarrow> real \<Rightarrow> real \<Rightarrow> int \<Rightarrow> int \<times> real \<times> real" where
  "qag_call Q fm Gamma accuracy num_intervals =
    gsl_integration_qag Q (Integrand fm Gamma) 0 (GetTrackLength fm) accuracy accuracy
      num_intervals"

definition qawo_call ::
  "quadrature \<Rightarrow> fieldmap \<Rightarrow> real option \<Rightarrow> real \<Rightarrow> real \<Rightarrow> int \<Rightarrow> int \<Rightarrow> qawo_weight
     \<Rightarrow> int \<times> real \<times> real" where
  "qawo_call Q fm q Gamma accuracy num_intervals qawo_levels w =
    gsl_integration_qawo Q (Integrand fm Gamma) 0 accuracy accuracy num_intervals
      \<lparr>omega = q, tableL = GetTrackLength fm, weight = w, levels = qawo_levels\<rparr>"

text \<open>
  The upward walk exceeds 10 eV without the probability dropping to half of the
  resonance maximum: at every scanned mass \<open>resonanceMass + k * step\<close> that is not
  above 10, and at the first one in any case, the probability is above \<open>Pmax / 2\<close>.
\<close>

definition never_crosses :: "physics \<Rightarrow> 'g gasmodel \<Rightarrow> 'g engine \<Rightarrow> real \<Rightarrow> bool" where
  "never_crosses K G s step =
    (\<forall>k \<in> {.. nat \<lfloor>(10 - resonanceMass G s) / step\<rfloor>}.
       dless (map_option (\<lambda>p. p / 2) (GammaTransmissionProbability K G s (resonanceMass G s) 0 0))
         (GammaTransmissionProbability K G s (resonanceMass G s + real k * step) 0 0))"

text \<open>
  A field map with a track of 10000 mm, and quadrature routines that report the status
  11 (QAG, and QAWO with the sine weight).
\<close>

definition sample_fieldmap :: fieldmap where
  "sample_fieldmap =
    \<lparr>GetTrackLength = 10000, GetTransversalComponentInParametricTrack = (\<lambda>x. 2)\<rparr>"

definition failing_quadrature :: quadrature where
  "failing_quadrature =
    \<lparr>gsl_integration_qag = (\<lambda>f a b epsabs epsrel limit. (11, 0, 0)),
     gsl_integration_qawo = (\<lambda>f a epsabs epsrel limit wf.
        (if weight wf = GSL_INTEG_SINE then 11 else 0, 1, 0))\<rparr>"

text \<open>The sample engine with the magnetic field switched off.\<close>

definition fieldless_engine :: "real engine" where
  "fieldless_engine = sample_engine\<lparr>fBmag := 0\<rparr>"

section \<open>Properties\<close>

subsection \<open>The closed-form engine\<close>

lemma photonMass_resolved:
  "(case fBufferGas s of Some gas \<Rightarrow> if mg = 0 then GetPhotonMass G gas (fEa s) else mg
    | None \<Rightarrow> mg) = spec_photonMass G s mg"
  by (simp add: spec_photonMass_def split: option.splits)

lemma Gamma_resolved:
  "(case fBufferGas s of
      Some gas \<Rightarrow> if absLength = 0 then GetPhotonAbsorptionLength G gas (fEa s) else absLength
    | None \<Rightarrow> absLength) = spec_Gamma G s absLength"
  by (simp add: spec_Gamma_def split: option.splits)

text \<open>
  Over the reals the engine computes the closed form of the specification. The doubles
  of the code round each operation, so the value below is the model's; the statements
  that follow use it where no rounding is involved: the early return, and the exchange
  of the two masses.
\<close>

lemma GTP_unfold:
  "GammaTransmissionProbability K G s ma mg absLength =
    (if ma = 0 \<and> spec_photonMass G s mg = 0 then Some (BLHalfSquared K (fBmag s) (fLcoh s))
     else if fEa s * units K ''eV'' = 0 then None
     else if (spec_phi K G s ma mg)\<^sup>2 + (spec_GammaL K G s absLength / 2)\<^sup>2 = 0 then None
     else Some (1 / ((spec_phi K G s ma mg)\<^sup>2 + (spec_GammaL K G s absLength / 2)\<^sup>2) *
                BLHalfSquared K (fBmag s) (fLcoh s) *
                (1 + exp (- spec_GammaL K G s absLength)
                   - 2 * exp (- spec_GammaL K G s absLength / 2) * cos (spec_phi K G s ma mg))))"
  unfolding GammaTransmissionProbability_def Let_def photonMass_resolved Gamma_resolved
  by (simp add: ddiv_def spec_phi_def spec_GammaL_def power2_eq_square)

text \<open>
  C2. With \<open>ma = 0\<close>, \<open>mg = 0\<close> and either no gas bound or a gas whose photon mass
  is zero, the engine returns \<open>BLHalfSquared fBmag fLcoh\<close>, whatever \<open>absLength\<close>
  is and whatever the gas gives as absorption coefficient.
\<close>

theorem degenerate_case:
  "(case fBufferGas s of None \<Rightarrow> True | Some gas \<Rightarrow> GetPhotonMass G gas (fEa s) = 0) \<Longrightarrow>
   GammaTransmissionProbability K (G\<lparr>GetPhotonAbsorptionLength := absorption\<rparr>) s 0 0 absLength =
     Some (BLHalfSquared K (fBmag s) (fLcoh s))"
proof -
  assume "case fBufferGas s of None \<Rightarrow> True | Some gas \<Rightarrow> GetPhotonMass G gas (fEa s) = 0"
  then have "spec_photonMass (G\<lparr>GetPhotonAbsorptionLength := absorption\<rparr>) s 0 = 0"
    by (simp add: spec_photonMass_def split: option.splits)
  then show ?thesis
    by (simp add: GTP_unfold)
qed

theorem degenerate_case_witness:
  "(case fBufferGas (sample_engine\<lparr>fBufferGas := Some 0\<rparr>) of None \<Rightarrow> True
    | Some gas \<Rightarrow> GetPhotonMass sample_gas gas (fEa (sample_engine\<lparr>fBufferGas := Some 0\<rparr>)) = 0) \<and>
   GammaTransmissionProbability sample_physics
       (sample_gas\<lparr>GetPhotonAbsorptionLength := (\<lambda>gas en. 7)\<rparr>)
       (sample_engine\<lparr>fBufferGas := Some 0\<rparr>) 0 0 3 =
     Some (BLHalfSquared sample_physics 2 10000)"
proof -
  have h: "(case fBufferGas (sample_engine\<lparr>fBufferGas := Some 0\<rparr>) of None \<Rightarrow> True
    | Some gas \<Rightarrow> GetPhotonMass sample_gas gas (fEa (sample_engine\<lparr>fBufferGas := Some 0\<rparr>)) = 0)"
    by (simp add: sample_gas_def)
  show ?thesis
    using h degenerate_case [OF h, of sample_physics "\<lambda>gas en. 7" 3]
    by (simp add: sample_engine_def)
qed

lemma spec_phi_swap:
  "fBufferGas s = None \<Longrightarrow> spec_phi K G s mg ma = - spec_phi K G s ma mg"
proof -
  assume v: "fBufferGas s = None"
  have pm: "spec_photonMass G s x = x" for x
    using v by (simp add: spec_photonMass_def)
  have "mg\<^sup>2 - ma\<^sup>2 = - (ma\<^sup>2 - mg\<^sup>2)"
    by simp
  then show ?thesis
    unfolding spec_phi_def pm by (simp only: minus_divide_left [symmetric] mult_minus_left)
qed

text \<open>
  C9. In vacuum the closed-form engine gives the same value when the axion mass and the
  photon mass are exchanged, that is when \<open>ma\<^sup>2 - mg\<^sup>2\<close> changes its sign.
\<close>

theorem sign_flip_symmetry:
  "fBufferGas s = None \<Longrightarrow>
   GammaTransmissionProbability K G s ma mg absLength =
   GammaTransmissionProbability K G s mg ma absLength"
proof -
  assume v: "fBufferGas s = None"
  have pm: "spec_photonMass G s x = x" for x
    using v by (simp add: spec_photonMass_def)
  have sw: "spec_phi K G s mg ma = - spec_phi K G s ma mg"
    using v by (rule spec_phi_swap)
  show ?thesis
    unfolding GTP_unfold sw pm by (simp add: conj_commute)
qed

theorem sign_flip_symmetry_witness:
  "fBufferGas sample_engine = None \<and>
   GammaTransmissionProbability sample_physics sample_gas sample_engine (1 / 10) (3 / 10) 0 =
   GammaTransmissionProbability sample_physics sample_gas sample_engine (3 / 10) (1 / 10) 0"
proof -
  have h: "fBufferGas sample_engine = None"
    by (simp add: sample_engine_def)
  show ?thesis
    using h sign_flip_symmetry [OF h, of sample_physics sample_gas "1 / 10" "3 / 10" 0]
    by simp
qed


subsection \<open>The scan-step generator\<close>

lemma fwhm_walk_total:
  assumes "0 < step"
  shows "\<exists>w. fwhm_walk K G s step maxMass Pmax x = Some w \<and>
             (\<forall>m. w = Crossed m \<longrightarrow> m = x \<or> x + step \<le> m)"
  using assms
proof (induction "nat \<lceil>(maxMass - x) / step\<rceil>" arbitrary: x rule: less_induct)
  case less
  show ?case
  proof (cases "dless (map_option (\<lambda>p. p / 2) Pmax)
                  (GammaTransmissionProbability K G s x 0 0) \<and> \<not> x + step > maxMass")
    case False
    then show ?thesis
      by (subst fwhm_walk.simps) (auto simp: Let_def)
  next
    case True
    then have le: "x + step \<le> maxMass" by simp
    have "(maxMass - (x + step)) / step = (maxMass - x) / step - 1"
      using less.prems by (simp add: field_simps)
    moreover have "0 < (maxMass - x) / step"
      using le less.prems by simp
    ultimately have "nat \<lceil>(maxMass - (x + step)) / step\<rceil> < nat \<lceil>(maxMass - x) / step\<rceil>"
      by (simp add: nat_less_iff)
    from less.hyps [OF this less.prems]
    obtain w where w: "fwhm_walk K G s step maxMass Pmax (x + step) = Some w"
      and m: "\<forall>m. w = Crossed m \<longrightarrow> m = x + step \<or> x + step + step \<le> m"
      by blast
    have "fwhm_walk K G s step maxMass Pmax x = Some w"
      using True w by (subst fwhm_walk.simps) (simp add: Let_def)
    moreover have "\<forall>m. w = Crossed m \<longrightarrow> m = x \<or> x + step \<le> m"
      using m less.prems by auto
    ultimately show ?thesis by blast
  qed
qed

lemma fwhm_walk_exceeds:
  assumes "0 < step"
    and "\<forall>k \<in> {.. nat \<lfloor>(maxMass - x) / step\<rfloor>}.
           dless (map_option (\<lambda>p. p / 2) Pmax)
             (GammaTransmissionProbability K G s (x + real k * step) 0 0)"
  shows "fwhm_walk K G s step maxMass Pmax x = Some Exceeded"
  using assms
proof (induction "nat \<lceil>(maxMass - x) / step\<rceil>" arbitrary: x rule: less_induct)
  case less
  have here: "dless (map_option (\<lambda>p. p / 2) Pmax) (GammaTransmissionProbability K G s x 0 0)"
    using less.prems(2) by (auto dest: bspec [where x = 0])
  show ?case
  proof (cases "x + step > maxMass")
    case True
    then show ?thesis
      using here by (subst fwhm_walk.simps) (simp add: Let_def)
  next
    case False
    then have le: "x + step \<le> maxMass" by simp
    have eq: "(maxMass - (x + step)) / step = (maxMass - x) / step - 1"
      using less.prems(1) by (simp add: field_simps)
    have pos: "1 \<le> (maxMass - x) / step"
      using le less.prems(1) by (simp add: field_simps)
    have dec: "nat \<lceil>(maxMass - (x + step)) / step\<rceil> < nat \<lceil>(maxMass - x) / step\<rceil>"
      using eq pos by (simp add: nat_less_iff)
    have fl: "nat \<lfloor>(maxMass - x) / step\<rfloor> = Suc (nat \<lfloor>(maxMass - (x + step)) / step\<rfloor>)"
      using eq pos by (simp add: Suc_nat_eq_nat_zadd1)
    have "\<forall>k \<in> {.. nat \<lfloor>(maxMass - (x + step)) / step\<rfloor>}.
           dless (map_option (\<lambda>p. p / 2) Pmax)
             (GammaTransmissionProbability K G s (x + step + real k * step) 0 0)"
    proof
      fix k assume "k \<in> {.. nat \<lfloor>(maxMass - (x + step)) / step\<rfloor>}"
      then have "Suc k \<in> {.. nat \<lfloor>(maxMass - x) / step\<rfloor>}"
        using fl by simp
      from bspec [OF less.prems(2) this]
      show "dless (map_option (\<lambda>p. p / 2) Pmax)
             (GammaTransmissionProbability K G s (x + step + real k * step) 0 0)"
        by (simp add: algebra_simps)
    qed
    from less.hyps [OF dec less.prems(1) this]
    show ?thesis
      using here False by (subst fwhm_walk.simps) (simp add: Let_def)
  qed
qed

lemma FWHM_total:
  assumes "0 < step"
  shows "\<exists>w r. GammaTransmissionFWHM K G s step = Some (w, r) \<and> min 10 (2 * step) \<le> w"
proof -
  from fwhm_walk_total [OF assms]
  obtain w where w: "fwhm_walk K G s step 10
        (GammaTransmissionProbability K G s (resonanceMass G s) 0 0) (resonanceMass G s) = Some w"
    and m: "\<forall>m. w = Crossed m \<longrightarrow> m = resonanceMass G s \<or> resonanceMass G s + step \<le> m"
    by blast
  show ?thesis
  proof (cases w)
    case Exceeded
    then show ?thesis
      using w by (simp add: GammaTransmissionFWHM_def)
  next
    case (Crossed scanMass)
    then have "scanMass = resonanceMass G s \<or> resonanceMass G s + step \<le> scanMass"
      using m by simp
    then show ?thesis
      using w Crossed assms by (auto simp: GammaTransmissionFWHM_def Let_def)
  qed
qed


lemma increasing_le_last:
  fixes xs :: "real list"
  shows "sorted_wrt (<) xs \<Longrightarrow> x \<in> set xs \<Longrightarrow> x \<le> last xs"
  by (induction xs) (auto simp: less_imp_le)

lemma factor_bounds:
  fixes ma rampDown :: real
  assumes "0 \<le> ma" and "0 \<le> rampDown"
  shows "1 < exp (- ma * rampDown) + 1" and "exp (- ma * rampDown) + 1 \<le> 2"
proof -
  show "1 < exp (- ma * rampDown) + 1"
    using exp_gt_zero [of "- ma * rampDown"] by linarith
  have "0 \<le> ma * rampDown"
    using assms by (rule mult_nonneg_nonneg)
  then have "exp (- ma * rampDown) \<le> 1"
    by simp
  then show "exp (- ma * rampDown) + 1 \<le> 2"
    by simp
qed

lemma scan_loop_total:
  assumes step: "0 < fwhmDefaultStep K"
    and ramp: "0 \<le> rampDown"
    and ma0: "0 \<le> ma"
  shows "\<exists>y. scan_loop K G gasName maMax rampDown s gas ma density massDensityPairs reports
               = Some y"
proof -
  define c where "c = min 10 (2 * fwhmDefaultStep K)"
  define d where "d = c / 2"
  have cpos: "0 < c" using step by (simp add: c_def)
  have dpos: "0 < d" using cpos by (simp add: d_def)
  show ?thesis
    using ma0
  proof (induction "nat \<lceil>(maMax - ma) / d\<rceil>"
      arbitrary: s gas ma density massDensityPairs reports rule: less_induct)
    case less
    show ?case
    proof (cases "ma < maMax")
      case False
      then show ?thesis
        by (subst scan_loop.simps) simp
    next
      case True
      define factor where "factor = exp (- ma * rampDown) + 1"
      define gas' where "gas' = SetGasDensity G gasName density gas"
      define s1 where "s1 = s\<lparr>fBufferGas := Some gas'\<rparr>"
      from FWHM_total [OF step, of K G s1]
      obtain w r where fw: "GammaTransmissionFWHM K G s1 (fwhmDefaultStep K) = Some (w, r)"
        and cw: "c \<le> w"
        unfolding c_def by blast
      define ma' where "ma' = ma + w / factor"
      define density' where "density' = GetDensityForMass G gas' ma' (densityDefaultEnergy G)"
      have f1: "0 < factor"
        using factor_bounds(1) [OF less.prems ramp] unfolding factor_def by linarith
      have f2: "factor \<le> 2"
        using factor_bounds(2) [OF less.prems ramp] unfolding factor_def .
      have "d \<le> w / factor"
        unfolding d_def using cpos cw f1 f2 by (intro frac_le) simp_all
      then have adv: "ma + d \<le> ma'"
        by (simp add: ma'_def)
      have "(maMax - ma') / d \<le> (maMax - (ma + d)) / d"
        using adv dpos by (intro divide_right_mono) simp_all
      also have "\<dots> = (maMax - ma) / d - 1"
        using dpos by (simp add: diff_divide_distrib add_divide_distrib)
      finally have "(maMax - ma') / d \<le> (maMax - ma) / d - 1" .
      moreover have "0 < (maMax - ma) / d"
        using True dpos by simp
      ultimately have dec: "nat \<lceil>(maMax - ma') / d\<rceil> < nat \<lceil>(maMax - ma) / d\<rceil>"
        by (simp add: nat_less_iff) linarith
      have ma'0: "0 \<le> ma'"
        using adv dpos less.prems by simp
      from less.hyps [OF dec ma'0, of s1 gas' density' "massDensityPairs @ [(ma', density')]"
          "reports @ r"]
      obtain y where
        rec: "scan_loop K G gasName maMax rampDown s1 gas' ma' density'
                (massDensityPairs @ [(ma', density')]) (reports @ r) = Some y"
        by blast
      have "scan_loop K G gasName maMax rampDown s gas ma density massDensityPairs reports
              = Some y"
        using True fw rec
        by (subst scan_loop.simps)
           (simp add: Let_def factor_def gas'_def s1_def ma'_def density'_def)
      then show ?thesis
        by blast
    qed
  qed
qed

lemma scanning_total:
  assumes step: "0 < fwhmDefaultStep K" and ramp: "0 \<le> rampDown"
  shows "\<exists>out. GetMassDensityScanning K G s gasName maMax rampDown = Some out"
proof -
  define s1 where "s1 = (case fBufferGas s of Some gas \<Rightarrow> s\<lparr>fBufferGas := None\<rparr> | None \<Rightarrow> s)"
  from FWHM_total [OF step, of K G s1]
  obtain w r where fw: "GammaTransmissionFWHM K G s1 (fwhmDefaultStep K) = Some (w, r)"
    and cw: "min 10 (2 * fwhmDefaultStep K) \<le> w"
    by blast
  have wpos: "0 \<le> w / 2"
    using cw step by simp
  define gas where "gas = SetGasDensity G gasName 0 (newGas G)"
  define s2 where "s2 = AssignBufferGas (Some gas) s1"
  define density where "density = GetDensityForMass G gas (w / 2) (fEa s2)"
  from scan_loop_total [OF step ramp wpos, of G gasName maMax s2 gas density
      "[(w / 2, density)]" r]
  obtain y where
    rec: "scan_loop K G gasName maMax rampDown s2 gas (w / 2) density [(w / 2, density)] r
            = Some y"
    by blast
  have "\<exists>out. GetMassDensityScanning K G s gasName maMax rampDown = Some out"
    using fw rec
    unfolding GetMassDensityScanning_def Let_def
    by (simp add: s1_def [symmetric] gas_def [symmetric] s2_def [symmetric]
        density_def [symmetric] split: prod.splits)
  then show ?thesis .
qed

lemma scan_loop_post:
  assumes run: "scan_loop K G gasName maMax rampDown s gas ma density massDensityPairs reports
                  = Some y"
    and step: "0 < fwhmDefaultStep K"
    and ne: "massDensityPairs \<noteq> []"
    and lst: "fst (last massDensityPairs) = ma"
    and srt: "sorted_wrt (<) (map fst massDensityPairs)"
  shows "fst y \<noteq> [] \<and> sorted_wrt (<) (map fst (fst y)) \<and> maMax \<le> fst (last (fst y))"
proof -
  have "0 < fwhmDefaultStep K \<longrightarrow> massDensityPairs \<noteq> [] \<longrightarrow>
        fst (last massDensityPairs) = ma \<longrightarrow> sorted_wrt (<) (map fst massDensityPairs) \<longrightarrow>
        fst y \<noteq> [] \<and> sorted_wrt (<) (map fst (fst y)) \<and> maMax \<le> fst (last (fst y))"
  proof (rule scan_loop.raw_induct
      [where P = "\<lambda>K G gasName maMax rampDown s gas ma density massDensityPairs reports y.
         0 < fwhmDefaultStep K \<longrightarrow> massDensityPairs \<noteq> [] \<longrightarrow>
         fst (last massDensityPairs) = ma \<longrightarrow> sorted_wrt (<) (map fst massDensityPairs) \<longrightarrow>
         fst y \<noteq> [] \<and> sorted_wrt (<) (map fst (fst y)) \<and> maMax \<le> fst (last (fst y))",
        OF _ run])
    fix f K G gasName and maMax rampDown :: real and gas and ma density :: real
      and massDensityPairs :: "(real \<times> real) list" and reports
      and s :: "'a engine" and y :: "(real \<times> real) list \<times> 'a engine \<times> report list"
    assume IH: "\<And>K G gasName maMax rampDown s gas ma density massDensityPairs reports y.
                f K G gasName maMax rampDown s gas ma density massDensityPairs reports = Some y \<Longrightarrow>
                0 < fwhmDefaultStep K \<longrightarrow> massDensityPairs \<noteq> [] \<longrightarrow>
                fst (last massDensityPairs) = ma \<longrightarrow> sorted_wrt (<) (map fst massDensityPairs) \<longrightarrow>
                fst y \<noteq> [] \<and> sorted_wrt (<) (map fst (fst y)) \<and> maMax \<le> fst (last (fst y))"
      and body: "(if ma < maMax
        then let factor = exp (- ma * rampDown) + 1;
                 gas' = SetGasDensity G gasName density gas;
                 s' = s\<lparr>fBufferGas := Some gas'\<rparr>
             in GammaTransmissionFWHM K G s' (fwhmDefaultStep K) \<bind>
                (\<lambda>r. let ma' = ma + fst r / factor;
                         density' = GetDensityForMass G gas' ma' (densityDefaultEnergy G)
                     in f K G gasName maMax rampDown s' gas' ma' density'
                          (massDensityPairs @ [(ma', density')]) (reports @ snd r))
        else Some (massDensityPairs, s, reports)) = Some y"
    show "0 < fwhmDefaultStep K \<longrightarrow> massDensityPairs \<noteq> [] \<longrightarrow>
          fst (last massDensityPairs) = ma \<longrightarrow> sorted_wrt (<) (map fst massDensityPairs) \<longrightarrow>
          fst y \<noteq> [] \<and> sorted_wrt (<) (map fst (fst y)) \<and> maMax \<le> fst (last (fst y))"
    proof (intro impI)
      assume step: "0 < fwhmDefaultStep K" and ne: "massDensityPairs \<noteq> []"
        and lst: "fst (last massDensityPairs) = ma"
        and srt: "sorted_wrt (<) (map fst massDensityPairs)"
      show "fst y \<noteq> [] \<and> sorted_wrt (<) (map fst (fst y)) \<and> maMax \<le> fst (last (fst y))"
      proof (cases "ma < maMax")
        case False
        then have "y = (massDensityPairs, s, reports)"
          using body by simp
        then show ?thesis
          using False ne lst srt by simp
      next
        case True
        define factor where "factor = exp (- ma * rampDown) + 1"
        define gas' where "gas' = SetGasDensity G gasName density gas"
        define s' where "s' = s\<lparr>fBufferGas := Some gas'\<rparr>"
        from True body obtain r where
          fw: "GammaTransmissionFWHM K G s' (fwhmDefaultStep K) = Some r"
          and rec: "f K G gasName maMax rampDown s' gas' (ma + fst r / factor)
                      (GetDensityForMass G gas' (ma + fst r / factor) (densityDefaultEnergy G))
                      (massDensityPairs @ [(ma + fst r / factor,
                         GetDensityForMass G gas' (ma + fst r / factor) (densityDefaultEnergy G))])
                      (reports @ snd r) = Some y"
          by (auto simp: Let_def factor_def gas'_def s'_def split: bind_splits)
        from FWHM_total [OF step, of K G s'] fw step have w: "0 < fst r"
          by auto
        have "0 < factor"
          using exp_gt_zero [of "- ma * rampDown"] unfolding factor_def by linarith
        then have gt: "ma < ma + fst r / factor"
          using w by simp
        have below: "\<forall>x \<in> set (map fst massDensityPairs). x < ma + fst r / factor"
        proof
          fix x assume "x \<in> set (map fst massDensityPairs)"
          then have "x \<le> last (map fst massDensityPairs)"
            using srt by (simp add: increasing_le_last)
          also have "\<dots> = ma"
            using ne lst by (simp add: last_map)
          finally show "x < ma + fst r / factor" using gt by simp
        qed
        have "sorted_wrt (<) (map fst (massDensityPairs @ [(ma + fst r / factor,
                GetDensityForMass G gas' (ma + fst r / factor) (densityDefaultEnergy G))]))"
          using srt below by (simp add: sorted_wrt_append)
        with IH [OF rec] step show ?thesis
          by simp
      qed
    qed
  qed
  then show ?thesis
    using step ne lst srt by blast
qed

lemma scanning_post:
  assumes run: "GetMassDensityScanning K G s gasName maMax rampDown = Some out"
    and step: "0 < fwhmDefaultStep K"
  shows "fst out \<noteq> [] \<and> sorted_wrt (<) (map fst (fst out)) \<and> maMax \<le> fst (last (fst out))"
proof -
  from run obtain s2 gas ma density rs y where
    loop: "scan_loop K G gasName maMax rampDown s2 gas ma density [(ma, density)] rs = Some y"
    and out: "fst out = fst y"
    unfolding GetMassDensityScanning_def Let_def
    by (auto split: bind_splits)
  from scan_loop_post [OF loop step] show ?thesis
    by (simp add: out)
qed

text \<open>
  C8. With a positive step, when the upward walk exceeds 10 eV without the probability
  dropping to half of the resonance maximum, \<open>GammaTransmissionFWHM\<close> returns, its
  value is exactly the sentinel 10, and it reports the error.
\<close>

theorem fwhm_sentinel:
  "0 < step \<Longrightarrow> never_crosses K G s step \<Longrightarrow>
   GammaTransmissionFWHM K G s step = Some (10, [FWHMWentWrong])"
  using fwhm_walk_exceeds [of step 10 "resonanceMass G s"
      "GammaTransmissionProbability K G s (resonanceMass G s) 0 0" K G s]
  by (simp add: never_crosses_def GammaTransmissionFWHM_def)

lemma sample_BLHalfSquared_pos: "0 < BLHalfSquared sample_physics 2 10000"
  by (simp add: BLHalfSquared_def sample_physics_def)

lemma sample_never_crosses: "never_crosses sample_physics sample_gas sample_engine 20"
proof -
  have r: "resonanceMass sample_gas sample_engine = 0"
    by (simp add: resonanceMass_def sample_engine_def)
  have p: "GammaTransmissionProbability sample_physics sample_gas sample_engine 0 0 0
             = Some (BLHalfSquared sample_physics 2 10000)"
    by (simp add: GTP_unfold spec_photonMass_def sample_engine_def)
  show ?thesis
    using sample_BLHalfSquared_pos by (simp add: never_crosses_def r p dless_def)
qed

theorem fwhm_sentinel_witness:
  "0 < (20 :: real) \<and> never_crosses sample_physics sample_gas sample_engine 20 \<and>
   GammaTransmissionFWHM sample_physics sample_gas sample_engine 20 = Some (10, [FWHMWentWrong])"
proof -
  have h: "0 < (20 :: real)" by simp
  show ?thesis
    using h sample_never_crosses fwhm_sentinel [OF h sample_never_crosses] by simp
qed

text \<open>
  C6. With a positive default step, for every gas name, maximum mass and ramp-down:
  whenever \<open>GetMassDensityScanning\<close> returns, the pairs it returns are not empty,
  their masses increase strictly, and the last mass is not below \<open>maMax\<close> (also when
  the loop runs no iteration); and with \<open>rampDown \<ge> 0\<close> it does return.
\<close>

theorem scanning_postcondition:
  "0 < fwhmDefaultStep K \<Longrightarrow>
   (\<forall>pairs s' reports.
      GetMassDensityScanning K G s gasName maMax rampDown = Some (pairs, s', reports) \<longrightarrow>
      pairs \<noteq> [] \<and> sorted_wrt (<) (map fst pairs) \<and> maMax \<le> fst (last pairs)) \<and>
   (0 \<le> rampDown \<longrightarrow>
      (\<exists>pairs s' reports.
         GetMassDensityScanning K G s gasName maMax rampDown = Some (pairs, s', reports)))"
proof (intro conjI allI impI)
  fix pairs s' reports
  assume "0 < fwhmDefaultStep K"
    and "GetMassDensityScanning K G s gasName maMax rampDown = Some (pairs, s', reports)"
  from scanning_post [OF this(2,1)]
  show "pairs \<noteq> []" "sorted_wrt (<) (map fst pairs)" "maMax \<le> fst (last pairs)"
    by simp_all
next
  assume "0 < fwhmDefaultStep K" "0 \<le> rampDown"
  from scanning_total [OF this, of G s gasName maMax]
  show "\<exists>pairs s' reports.
          GetMassDensityScanning K G s gasName maMax rampDown = Some (pairs, s', reports)"
    by auto
qed

lemma sample_step: "0 < fwhmDefaultStep sample_physics"
  by (simp add: sample_physics_def)

text \<open>
  Without a field every probability is zero or a NaN, the walk stops at once and the
  width is the fallback \<open>2 * step\<close>: the scan up to 0.0015 eV with no ramp-down
  takes one iteration.
\<close>

lemma fieldless_probability:
  "fBmag s = 0 \<Longrightarrow>
   GammaTransmissionProbability K G s ma 0 0 = None \<or>
   GammaTransmissionProbability K G s ma 0 0 = Some 0"
  by (simp add: GTP_unfold BLHalfSquared_def)

lemma fieldless_FWHM:
  assumes "fBmag s = 0"
  shows "GammaTransmissionFWHM K G s step = Some (2 * step, [FWHMProblem])"
proof -
  define Pmax where "Pmax = GammaTransmissionProbability K G s (resonanceMass G s) 0 0"
  have "Pmax = None \<or> Pmax = Some 0"
    unfolding Pmax_def using assms by (rule fieldless_probability)
  then have "\<not> dless (map_option (\<lambda>p. p / 2) Pmax) Pmax"
    by (auto simp: dless_def)
  then have "fwhm_walk K G s step 10 Pmax (resonanceMass G s) = Some (Crossed (resonanceMass G s))"
    by (subst fwhm_walk.simps) (simp add: Pmax_def)
  then show ?thesis
    by (simp add: GammaTransmissionFWHM_def Pmax_def)
qed

lemma fieldless_scanning:
  "GetMassDensityScanning sample_physics sample_gas fieldless_engine ''He'' (15 / 10000) 0 =
     Some ([(1 / 1000, 1 / 1000), (2 / 1000, 2 / 1000)], fieldless_engine,
           [FWHMProblem, FWHMProblem])"
proof -
  have B: "fBmag (s\<lparr>fBufferGas := g\<rparr>) = 0" if "fBmag s = 0" for s :: "real engine" and g
    using that by simp
  have B0: "fBmag fieldless_engine = 0"
    by (simp add: fieldless_engine_def)
  have step: "fwhmDefaultStep sample_physics = 1 / 1000"
    by (simp add: sample_physics_def)
  have gas: "SetGasDensity sample_gas n d g = d" "GetDensityForMass sample_gas g m e = m" for n d g m e
    by (simp_all add: sample_gas_def)
  have v: "fBufferGas fieldless_engine = None"
    by (simp add: fieldless_engine_def sample_engine_def)
  show ?thesis
    unfolding GetMassDensityScanning_def Let_def AssignBufferGas_def
    apply (simp add: v fieldless_FWHM B0 step gas)
    apply (subst scan_loop.simps)
    apply (simp add: fieldless_FWHM B0 step gas)
    apply (subst scan_loop.simps)
    apply (simp add: fieldless_engine_def sample_engine_def Let_def)
    done
qed

theorem scanning_postcondition_witness:
  "0 < fwhmDefaultStep sample_physics \<and> (0 :: real) \<le> 5 \<and>
   GetMassDensityScanning sample_physics sample_gas fieldless_engine ''He'' (15 / 10000) 0 =
     Some ([(1 / 1000, 1 / 1000), (2 / 1000, 2 / 1000)], fieldless_engine,
           [FWHMProblem, FWHMProblem]) \<and>
   sorted_wrt (<) (map fst [(1 / 1000 :: real, 1 / 1000 :: real), (2 / 1000, 2 / 1000)]) \<and>
   (15 / 10000 :: real) \<le> fst (last [(1 / 1000 :: real, 1 / 1000 :: real), (2 / 1000, 2 / 1000)]) \<and>
   (\<exists>pairs s' reports.
     GetMassDensityScanning sample_physics sample_gas sample_engine ''He'' (15 / 100) 5
       = Some (pairs, s', reports) \<and>
     pairs \<noteq> [] \<and> sorted_wrt (<) (map fst pairs) \<and> 15 / 100 \<le> fst (last pairs))"
proof -
  have r: "(0 :: real) \<le> 5" by simp
  show ?thesis
    using sample_step r fieldless_scanning
      scanning_postcondition [OF sample_step, of sample_gas fieldless_engine "''He''"
        "15 / 10000" 0]
      scanning_postcondition [OF sample_step, of sample_gas sample_engine "''He''"
        "15 / 100" 5]
    by (simp only: simp_thms) blast
qed

lemma scan_loop_frame:
  assumes "scan_loop K G gasName maMax rampDown s gas ma density massDensityPairs reports = Some y"
  shows "(fst (snd y))\<lparr>fBufferGas := b\<rparr> = s\<lparr>fBufferGas := b\<rparr>"
proof (rule scan_loop.raw_induct
    [where P = "\<lambda>K G gasName maMax rampDown s gas ma density massDensityPairs reports y.
                  (fst (snd y))\<lparr>fBufferGas := b\<rparr> = s\<lparr>fBufferGas := b\<rparr>", OF _ assms])
  fix f K G gasName maMax rampDown gas ma density massDensityPairs reports
    and s :: "'a engine" and y :: "(real \<times> real) list \<times> 'a engine \<times> report list"
  assume IH: "\<And>K G gasName maMax rampDown s gas ma density massDensityPairs reports y.
                f K G gasName maMax rampDown s gas ma density massDensityPairs reports = Some y \<Longrightarrow>
                (fst (snd y))\<lparr>fBufferGas := b\<rparr> = s\<lparr>fBufferGas := b\<rparr>"
    and body: "(if ma < maMax
      then let factor = exp (- ma * rampDown) + 1;
               gas' = SetGasDensity G gasName density gas;
               s' = s\<lparr>fBufferGas := Some gas'\<rparr>
           in GammaTransmissionFWHM K G s' (fwhmDefaultStep K) \<bind>
              (\<lambda>r. let ma' = ma + fst r / factor;
                       density' = GetDensityForMass G gas' ma' (densityDefaultEnergy G)
                   in f K G gasName maMax rampDown s' gas' ma' density'
                        (massDensityPairs @ [(ma', density')]) (reports @ snd r))
      else Some (massDensityPairs, s, reports)) = Some y"
  show "(fst (snd y))\<lparr>fBufferGas := b\<rparr> = s\<lparr>fBufferGas := b\<rparr>"
  proof (cases "ma < maMax")
    case False
    then show ?thesis using body by auto
  next
    case True
    then obtain s' gas' ma' density' ps rs where
      "f K G gasName maMax rampDown s' gas' ma' density' ps rs = Some y"
      and "s' = s\<lparr>fBufferGas := Some gas'\<rparr>"
      using body by (auto simp: Let_def split: bind_splits)
    then show ?thesis
      using IH [of K G gasName maMax rampDown s' gas' ma' density' ps rs y] by simp
  qed
qed

lemma scanning_frame:
  assumes "GetMassDensityScanning K G s gasName maMax rampDown = Some out"
  shows "fst (snd out) = s"
proof -
  define s1 where "s1 = (case fBufferGas s of Some gas \<Rightarrow> s\<lparr>fBufferGas := None\<rparr> | None \<Rightarrow> s)"
  have prev: "(case fBufferGas s of Some gas \<Rightarrow> Some gas | None \<Rightarrow> None) = fBufferGas s"
    by (simp split: option.splits)
  have s1: "s1\<lparr>fBufferGas := fBufferGas s\<rparr> = s"
    by (simp add: s1_def split: option.splits)
  from assms obtain gas ma density ps rs y where
    loop: "scan_loop K G gasName maMax rampDown (AssignBufferGas (Some gas) s1) gas ma density
             ps rs = Some y"
    and out: "out = (fst y, (fst (snd y))\<lparr>fBufferGas := fBufferGas s\<rparr>, snd (snd y))"
    unfolding GetMassDensityScanning_def Let_def prev s1_def [symmetric]
    by (auto split: bind_splits)
  from scan_loop_frame [OF loop, of "fBufferGas s"] s1 show ?thesis
    by (simp add: out AssignBufferGas_def)
qed

text \<open>
  C7. Whenever \<open>GetMassDensityScanning\<close> returns, the gas bound to the engine is the
  one bound before the call, the null binding included; and with a positive default
  step and \<open>rampDown \<ge> 0\<close> it does return.
\<close>

theorem scanning_restores_gas:
  "(\<forall>out. GetMassDensityScanning K G s gasName maMax rampDown = Some out \<longrightarrow>
      fBufferGas (fst (snd out)) = fBufferGas s) \<and>
   (0 < fwhmDefaultStep K \<and> 0 \<le> rampDown \<longrightarrow>
      (\<exists>out. GetMassDensityScanning K G s gasName maMax rampDown = Some out))"
  using scanning_frame [of K G s gasName maMax rampDown]
    scanning_total [of K rampDown G s gasName maMax]
  by auto

theorem scanning_restores_gas_witness:
  "0 < fwhmDefaultStep sample_physics \<and> (0 :: real) \<le> 5 \<and>
   (\<exists>out. GetMassDensityScanning sample_physics sample_gas (sample_engine\<lparr>fBufferGas := Some 3\<rparr>)
            ''He'' (15 / 100) 5 = Some out \<and>
          fBufferGas (fst (snd out)) = Some 3)"
proof -
  have r: "(0 :: real) \<le> 5" by simp
  show ?thesis
    using sample_step r
      scanning_restores_gas [of sample_physics sample_gas
        "sample_engine\<lparr>fBufferGas := Some 3\<rparr>" "''He''" "15 / 100" 5]
    by auto
qed

text \<open>
  C10. With a positive default step and \<open>rampDown \<ge> 0\<close>, \<open>GetMassDensityScanning\<close>
  returns: \<open>GammaTransmissionFWHM\<close> with a positive step returns a positive width in
  every state, and the factor of the loop lies in \<open>(1, 2]\<close> at every mass \<open>ma \<ge> 0\<close>.
\<close>

theorem scanning_terminates:
  "0 < fwhmDefaultStep K \<Longrightarrow> 0 \<le> rampDown \<Longrightarrow>
   (\<exists>out. GetMassDensityScanning K G s gasName maMax rampDown = Some out) \<and>
   (\<forall>e step. 0 < step \<longrightarrow>
      (\<exists>w r. GammaTransmissionFWHM K G e step = Some (w, r) \<and> 0 < w)) \<and>
   (\<forall>ma. 0 \<le> ma \<longrightarrow> 1 < exp (- ma * rampDown) + 1 \<and> exp (- ma * rampDown) + 1 \<le> 2)"
proof (intro conjI allI impI)
  assume "0 < fwhmDefaultStep K" "0 \<le> rampDown"
  then show "\<exists>out. GetMassDensityScanning K G s gasName maMax rampDown = Some out"
    by (rule scanning_total)
next
  fix e and step :: real
  assume "0 < step"
  from FWHM_total [OF this, of K G e]
  show "\<exists>w r. GammaTransmissionFWHM K G e step = Some (w, r) \<and> 0 < w"
    using \<open>0 < step\<close> by fastforce
next
  fix ma :: real
  assume "0 \<le> rampDown" "0 \<le> ma"
  then show "1 < exp (- ma * rampDown) + 1"
    using factor_bounds(1) by blast
next
  fix ma :: real
  assume "0 \<le> rampDown" "0 \<le> ma"
  then show "exp (- ma * rampDown) + 1 \<le> 2"
    using factor_bounds(2) by blast
qed

theorem scanning_terminates_witness:
  "0 < fwhmDefaultStep sample_physics \<and> (0 :: real) \<le> 5 \<and>
   (\<exists>out. GetMassDensityScanning sample_physics sample_gas sample_engine ''He'' (15 / 100) 5
            = Some out)"
proof -
  have h: "(0 :: real) \<le> 5" by simp
  show ?thesis
    using sample_step h
      scanning_terminates [OF sample_step h, of sample_gas sample_engine "''He''" "15 / 100"]
    by blast
qed

subsection \<open>The discrete-profile engine\<close>

lemma empty_bound: "(0 :: 64 word) < - 1"
  by (simp add: word_gt_0)

lemma midpoint_loop_empty:
  "midpoint_loop K [] deltaL Gamma q 0 csum = Some (Inl OutOfRange)"
  by (subst midpoint_loop.simps) (simp add: empty_bound)

lemma midpoint_loop_single:
  "midpoint_loop K [b] deltaL Gamma q 0 csum = Some (Inr csum)"
  by (subst midpoint_loop.simps) simp

lemma profile_single:
  "GammaTransmissionProbability_profile K G s [b] deltaL Ea ma mg absLength = Some (Inr (Some 0))"
  by (simp add: GammaTransmissionProbability_profile_def Let_def midpoint_loop_single
      BLHalfSquared_def)

lemma profile_empty:
  "GammaTransmissionProbability_profile K G s [] deltaL Ea ma mg absLength =
    (if ma = 0 \<and> (case fBufferGas s of
                      Some gas \<Rightarrow> if mg = 0 then GetPhotonMass G gas Ea else mg
                    | None \<Rightarrow> mg) = 0
     then Some (Inr (Some 0)) else Some (Inl OutOfRange))"
  by (simp add: GammaTransmissionProbability_profile_def Let_def midpoint_loop_empty
      BLHalfSquared_def)

text \<open>
  C3. The claim: for a profile of fewer than two samples the overload is well defined
  and returns zero. It holds for one sample (\<open>profile_single\<close>) and for the empty
  profile at \<open>ma = 0\<close> and a zero photon mass (\<open>profile_empty\<close>). On the empty
  profile otherwise the bound \<^verbatim>\<open>Bmag.size() - 1\<close> wraps around and the loop reads
  \<^verbatim>\<open>Bmag[0]\<close> and \<^verbatim>\<open>Bmag[1]\<close> out of range: evaluated here in vacuum at
  \<open>deltaL = 1\<close>, \<open>Ea = 1\<close>, \<open>ma = 1\<close>, \<open>mg = 0\<close>, \<open>absLength = 0\<close>.
\<close>

theorem profile_empty_out_of_range:
  "GammaTransmissionProbability_profile sample_physics sample_gas sample_engine [] 1 1 1 0 0
     = Some (Inl OutOfRange)"
  by (simp add: profile_empty)

subsection \<open>The field-map engine\<close>

text \<open>
  C4, as stated, fails: with a field map whose track length is zero the engine returns
  \<open>(0, 0)\<close> and sends nothing to \<^verbatim>\<open>RESTError\<close>.
\<close>

theorem zero_track_reports_nothing:
  "GetTrackLength (sample_fieldmap\<lparr>GetTrackLength := 0\<rparr>) \<le> 0 \<and>
   GammaTransmissionFieldMapProbability sample_physics sample_gas failing_quadrature
     (sample_engine\<lparr>fMagneticField := Some (sample_fieldmap\<lparr>GetTrackLength := 0\<rparr>)\<rparr>)
     (42 / 10) (1 / 10) (1 / 10) 100 20 = (Inr (0, 0), [])"
  by (simp add: GammaTransmissionFieldMapProbability_def)

text \<open>
  C4, amended. If no field map is assigned, or the track length of the assigned map is
  not positive, the engine returns \<open>(0, 0)\<close> whatever the quadrature routines are; it
  reports the error when no map is assigned, and reports nothing when the track length
  is not positive.
\<close>

theorem field_map_preconditions:
  "(fMagneticField s = None \<longrightarrow>
      GammaTransmissionFieldMapProbability K G Q s Ea ma accuracy num_intervals qawo_levels
        = (Inr (0, 0), [RequiresFieldMap, UseAssignMagneticField])) \<and>
   (\<forall>fm. fMagneticField s = Some fm \<and> GetTrackLength fm \<le> 0 \<longrightarrow>
      GammaTransmissionFieldMapProbability K G Q s Ea ma accuracy num_intervals qawo_levels
        = (Inr (0, 0), []))"
  by (simp add: GammaTransmissionFieldMapProbability_def)

theorem field_map_preconditions_witness:
  "fMagneticField sample_engine = None \<and>
   GammaTransmissionFieldMapProbability sample_physics sample_gas failing_quadrature
     sample_engine (42 / 10) (1 / 10) (1 / 10) 100 20
     = (Inr (0, 0), [RequiresFieldMap, UseAssignMagneticField]) \<and>
   GammaTransmissionFieldMapProbability sample_physics sample_gas failing_quadrature
     (sample_engine\<lparr>fMagneticField := Some (sample_fieldmap\<lparr>GetTrackLength := - 1\<rparr>)\<rparr>)
     (42 / 10) (1 / 10) (1 / 10) 100 20 = (Inr (0, 0), [])"
proof -
  have n: "fMagneticField sample_engine = None"
    by (simp add: sample_engine_def)
  show ?thesis
    using n
      field_map_preconditions [of sample_engine sample_physics sample_gas failing_quadrature
        "42 / 10" "1 / 10" "1 / 10" 100 20]
      field_map_preconditions
        [of "sample_engine\<lparr>fMagneticField := Some (sample_fieldmap\<lparr>GetTrackLength := - 1\<rparr>)\<rparr>"
          sample_physics sample_gas failing_quadrature "42 / 10" "1 / 10" "1 / 10" 100 20]
    by simp
qed

lemma field_map_dispatch:
  assumes "fMagneticField s = Some fm" and "0 < GetTrackLength fm"
  shows "\<exists>q Gamma.
           GammaTransmissionFieldMapProbability K G Q s Ea ma accuracy num_intervals qawo_levels
             = (ComputeResonanceIntegral K Q s Gamma accuracy num_intervals, []) \<or>
           GammaTransmissionFieldMapProbability K G Q s Ea ma accuracy num_intervals qawo_levels
             = (ComputeOffResonanceIntegral K Q s q Gamma accuracy num_intervals qawo_levels, [])"
  using assms unfolding GammaTransmissionFieldMapProbability_def Let_def
  by (simp only: option.case if_not_P not_le [symmetric] split: if_splits) metis

text \<open>
  C5. With a field map assigned: when the QAG call of \<open>ComputeResonanceIntegral\<close>
  reports a positive status, the result is \<open>(0, status)\<close>, and the status is not
  zero; when the first QAWO call of \<open>ComputeOffResonanceIntegral\<close> reports a positive
  status, or the first does not and the second does, the result is \<open>(0, status)\<close> of
  that call. With a positive track length the engine returns the result of one of the
  two integrals and reports nothing.
\<close>

theorem quadrature_failure_status:
  assumes "fMagneticField s = Some fm"
  shows "(0 < fst (qag_call Q fm Gamma accuracy num_intervals) \<longrightarrow>
            ComputeResonanceIntegral K Q s Gamma accuracy num_intervals
              = Inr (0, real_of_int (fst (qag_call Q fm Gamma accuracy num_intervals))) \<and>
            real_of_int (fst (qag_call Q fm Gamma accuracy num_intervals)) \<noteq> 0) \<and>
         (0 < fst (qawo_call Q fm q Gamma accuracy num_intervals qawo_levels GSL_INTEG_COSINE) \<longrightarrow>
            ComputeOffResonanceIntegral K Q s q Gamma accuracy num_intervals qawo_levels
              = Inr (0, real_of_int (fst (qawo_call Q fm q Gamma accuracy num_intervals
                                            qawo_levels GSL_INTEG_COSINE)))) \<and>
         (\<not> 0 < fst (qawo_call Q fm q Gamma accuracy num_intervals qawo_levels GSL_INTEG_COSINE) \<and>
          0 < fst (qawo_call Q fm q Gamma accuracy num_intervals qawo_levels GSL_INTEG_SINE) \<longrightarrow>
            ComputeOffResonanceIntegral K Q s q Gamma accuracy num_intervals qawo_levels
              = Inr (0, real_of_int (fst (qawo_call Q fm q Gamma accuracy num_intervals
                                            qawo_levels GSL_INTEG_SINE)))) \<and>
         (0 < GetTrackLength fm \<longrightarrow>
            (\<exists>q' Gamma'.
               GammaTransmissionFieldMapProbability K G Q s Ea ma accuracy num_intervals
                   qawo_levels
                 = (ComputeResonanceIntegral K Q s Gamma' accuracy num_intervals, []) \<or>
               GammaTransmissionFieldMapProbability K G Q s Ea ma accuracy num_intervals
                   qawo_levels
                 = (ComputeOffResonanceIntegral K Q s q' Gamma' accuracy num_intervals
                      qawo_levels, [])))"
proof (intro conjI impI)
  assume "0 < fst (qag_call Q fm Gamma accuracy num_intervals)"
  then show "ComputeResonanceIntegral K Q s Gamma accuracy num_intervals
      = Inr (0, real_of_int (fst (qag_call Q fm Gamma accuracy num_intervals)))"
    using assms by (auto simp add: ComputeResonanceIntegral_def qag_call_def split: prod.splits)
next
  assume "0 < fst (qag_call Q fm Gamma accuracy num_intervals)"
  then show "real_of_int (fst (qag_call Q fm Gamma accuracy num_intervals)) \<noteq> 0"
    by simp
next
  assume "0 < fst (qawo_call Q fm q Gamma accuracy num_intervals qawo_levels GSL_INTEG_COSINE)"
  then show "ComputeOffResonanceIntegral K Q s q Gamma accuracy num_intervals qawo_levels
      = Inr (0, real_of_int (fst (qawo_call Q fm q Gamma accuracy num_intervals qawo_levels
                                    GSL_INTEG_COSINE)))"
    using assms
    by (auto simp add: ComputeOffResonanceIntegral_def qawo_call_def Let_def split: prod.splits)
next
  assume "\<not> 0 < fst (qawo_call Q fm q Gamma accuracy num_intervals qawo_levels GSL_INTEG_COSINE) \<and>
          0 < fst (qawo_call Q fm q Gamma accuracy num_intervals qawo_levels GSL_INTEG_SINE)"
  then show "ComputeOffResonanceIntegral K Q s q Gamma accuracy num_intervals qawo_levels
      = Inr (0, real_of_int (fst (qawo_call Q fm q Gamma accuracy num_intervals qawo_levels
                                    GSL_INTEG_SINE)))"
    using assms
    by (auto simp add: ComputeOffResonanceIntegral_def qawo_call_def Let_def split: prod.splits)
next
  assume "0 < GetTrackLength fm"
  with assms show "\<exists>q' Gamma'.
       GammaTransmissionFieldMapProbability K G Q s Ea ma accuracy num_intervals qawo_levels
         = (ComputeResonanceIntegral K Q s Gamma' accuracy num_intervals, []) \<or>
       GammaTransmissionFieldMapProbability K G Q s Ea ma accuracy num_intervals qawo_levels
         = (ComputeOffResonanceIntegral K Q s q' Gamma' accuracy num_intervals qawo_levels, [])"
    by (rule field_map_dispatch)
qed

theorem quadrature_failure_status_witness:
  "fMagneticField (sample_engine\<lparr>fMagneticField := Some sample_fieldmap\<rparr>) = Some sample_fieldmap \<and>
   ComputeResonanceIntegral sample_physics failing_quadrature
     (sample_engine\<lparr>fMagneticField := Some sample_fieldmap\<rparr>) 0 (1 / 10) 100 = Inr (0, 11) \<and>
   ComputeOffResonanceIntegral sample_physics failing_quadrature
     (sample_engine\<lparr>fMagneticField := Some sample_fieldmap\<rparr>) (Some 1) 0 (1 / 10) 100 20
     = Inr (0, 11)"
proof -
  have h: "fMagneticField (sample_engine\<lparr>fMagneticField := Some sample_fieldmap\<rparr>)
             = Some sample_fieldmap"
    by simp
  have a: "fst (qag_call failing_quadrature sample_fieldmap 0 (1 / 10) 100) = 11"
    by (simp add: qag_call_def failing_quadrature_def)
  have c: "fst (qawo_call failing_quadrature sample_fieldmap (Some 1) 0 (1 / 10) 100 20
                  GSL_INTEG_COSINE) = 0"
    by (simp add: qawo_call_def failing_quadrature_def)
  have d: "fst (qawo_call failing_quadrature sample_fieldmap (Some 1) 0 (1 / 10) 100 20
                  GSL_INTEG_SINE) = 11"
    by (simp add: qawo_call_def failing_quadrature_def)
  show ?thesis
    using h
      quadrature_failure_status [OF h, of failing_quadrature 0 "1 / 10" 100 sample_physics
        "Some 1" 20 sample_gas "42 / 10" "1 / 10"]
    by (simp add: a c d)
qed

end
